theory Spec2Isabelle
  imports Main
begin

section \<open>The o1js primitives the vault is written with\<close>

text \<open>
  A \<open>Field\<close> is an element of the native field of the proof system, kept as its canonical
  representative below \<open>Field_ORDER\<close> (the order of the Pallas base field). A \<open>UInt64\<close> is a
  wrapper around one \<open>Field\<close>: its constructor and its arithmetic check the 64-bit range,
  \<open>toFields()[0]\<close> reads the wrapped value and \<open>fromFields\<close> wraps a value without a
  range check. Both are therefore natural numbers here, with the reductions and the range
  checks written out.
\<close>

type_synonym Field = nat
type_synonym UInt64 = nat

definition Field_ORDER :: nat where
  "Field_ORDER = 28948022309329048855892746252171976963363056481941560715954676764349967630337"

definition isField :: "nat \<Rightarrow> bool" where
  "isField x \<longleftrightarrow> x < Field_ORDER"

definition Field_add :: "Field \<Rightarrow> Field \<Rightarrow> Field" where
  "Field_add a b = (a + b) mod Field_ORDER"

definition Field_sub :: "Field \<Rightarrow> Field \<Rightarrow> Field" where
  "Field_sub a b = (a + (Field_ORDER - b mod Field_ORDER)) mod Field_ORDER"

definition Field_mul :: "Field \<Rightarrow> Field \<Rightarrow> Field" where
  "Field_mul a b = (a * b) mod Field_ORDER"

definition MAXINT :: UInt64 where
  "MAXINT = 18446744073709551615"

definition isUInt64 :: "nat \<Rightarrow> bool" where
  "isUInt64 x \<longleftrightarrow> x \<le> MAXINT"

text \<open>
  Every failed assertion aborts the method call. The first ten errors are the messages of
  \<open>ZkUsdVaultErrors\<close>; the others are raised by the primitives: \<open>DivisionByZero\<close> by
  \<open>fieldIntegerDiv\<close>, \<open>FieldAssertion\<close> by an unnamed \<open>Field\<close> assertion,
  \<open>UInt64Overflow\<close> and \<open>UInt64Underflow\<close> by the range checks of \<open>UInt64\<close>
  arithmetic, and \<open>PreconditionFailed\<close> by \<open>requireEquals\<close> on a state field.
\<close>

datatype error =
    AMOUNT_ZERO
  | BALANCE_ZERO
  | HEALTH_FACTOR_TOO_LOW
  | HEALTH_FACTOR_TOO_HIGH
  | AMOUNT_EXCEEDS_DEBT
  | INVALID_SECRET
  | INVALID_ORACLE_SIG
  | ORACLE_EXPIRED
  | INSUFFICIENT_BALANCE
  | INSUFFICIENT_COLLATERAL
  | DivisionByZero
  | FieldAssertion
  | UInt64Overflow
  | UInt64Underflow
  | PreconditionFailed

definition andThen :: "error + 'a \<Rightarrow> ('a \<Rightarrow> error + 'b) \<Rightarrow> error + 'b" where
  "andThen r f = (case r of Inl e \<Rightarrow> Inl e | Inr x \<Rightarrow> f x)"

definition require :: "bool \<Rightarrow> error \<Rightarrow> error + unit" where
  "require b e = (if b then Inr () else Inl e)"

definition UInt64_add :: "UInt64 \<Rightarrow> UInt64 \<Rightarrow> error + UInt64" where
  "UInt64_add a b = (if a + b \<le> MAXINT then Inr (a + b) else Inl UInt64Overflow)"

definition UInt64_sub :: "UInt64 \<Rightarrow> UInt64 \<Rightarrow> error + UInt64" where
  "UInt64_sub a b = (if b \<le> a then Inr (a - b) else Inl UInt64Underflow)"

definition UInt64_mul :: "UInt64 \<Rightarrow> UInt64 \<Rightarrow> error + UInt64" where
  "UInt64_mul a b = (if a * b \<le> MAXINT then Inr (a * b) else Inl UInt64Overflow)"

definition UInt64_div :: "UInt64 \<Rightarrow> UInt64 \<Rightarrow> error + UInt64" where
  "UInt64_div a b = (if b = 0 then Inl DivisionByZero else Inr (a div b))"

text \<open>
  \<open>x.assertGreaterThanOrEqual(y, message)\<close> on values that are not constants is a 64-bit
  range check of \<open>x - y\<close>, the difference taken in the field. On two 64-bit values it is
  the comparison \<open>x \<ge> y\<close>. A value \<open>x\<close> that was never range-checked fails it when it
  is below \<open>y\<close> and also when it is \<open>2 ^ 64\<close> or more above \<open>y\<close>.
\<close>

definition UInt64_assertGreaterThanOrEqual :: "UInt64 \<Rightarrow> UInt64 \<Rightarrow> error \<Rightarrow> error + unit"
  where
  "UInt64_assertGreaterThanOrEqual x y e = require (Field_sub x y \<le> MAXINT) e"

section \<open>Health factor arithmetic\<close>

definition COLLATERAL_RATIO :: Field where
  "COLLATERAL_RATIO = 150"

definition COLLATERAL_RATIO_PRECISION :: Field where
  "COLLATERAL_RATIO_PRECISION = 100"

definition PROTOCOL_FEE_PRECISION :: UInt64 where
  "PROTOCOL_FEE_PRECISION = 100"

definition UNIT_PRECISION :: Field where
  "UNIT_PRECISION = 1000000000"

definition MIN_HEALTH_FACTOR :: UInt64 where
  "MIN_HEALTH_FACTOR = 100"

text \<open>
  \<open>fieldIntegerDiv\<close>: the quotient is the one the witness block computes, on the integer
  values of \<open>x\<close> and \<open>y\<close>; the remainder is computed in the field, and the three
  assertions on it follow in the order of the source.
\<close>

definition fieldIntegerDiv :: "Field \<Rightarrow> Field \<Rightarrow> error + Field" where
  "fieldIntegerDiv x y =
     (if y = 0 then Inl DivisionByZero
      else
        let q = x div y;
            r = Field_sub x (Field_mul q y)
        in if \<not> 0 \<le> r then Inl FieldAssertion
           else if \<not> r < y then Inl FieldAssertion
           else if x \<noteq> Field_add (Field_mul q y) r then Inl FieldAssertion
           else Inr q)"

definition safeDiv :: "Field \<Rightarrow> Field \<Rightarrow> error + Field" where
  "safeDiv numerator denominator =
     (let isDenominatorZero = (denominator = 0);
          safeDenominator = (if isDenominatorZero then 1 else denominator)
      in andThen (fieldIntegerDiv numerator safeDenominator)
           (\<lambda>divisionResult. Inr (if isDenominatorZero then MAXINT else divisionResult)))"

definition calculateUsdValue :: "UInt64 \<Rightarrow> UInt64 \<Rightarrow> error + Field" where
  "calculateUsdValue amount price =
     (let numCollateralValue = Field_mul amount price
      in fieldIntegerDiv numCollateralValue UNIT_PRECISION)"

definition calculateMaxAllowedDebt :: "Field \<Rightarrow> error + Field" where
  "calculateMaxAllowedDebt collateralValue =
     (let numCollateralValue = Field_mul collateralValue COLLATERAL_RATIO_PRECISION
      in andThen (fieldIntegerDiv numCollateralValue COLLATERAL_RATIO)
           (\<lambda>q. Inr (Field_mul q COLLATERAL_RATIO_PRECISION)))"

text \<open>
  \<open>calculateHealthFactor\<close> wraps the quotient with \<open>UInt64.fromFields\<close>, which does
  not check the range: the result is the field value \<open>safeDiv\<close> returns, which can
  exceed 64 bits.
\<close>

definition calculateHealthFactor :: "UInt64 \<Rightarrow> UInt64 \<Rightarrow> UInt64 \<Rightarrow> error + UInt64" where
  "calculateHealthFactor collateral debt price =
     andThen (calculateUsdValue collateral price) (\<lambda>collateralValue.
     andThen (calculateMaxAllowedDebt collateralValue) (\<lambda>maxAllowedDebt.
     safeDiv maxAllowedDebt debt))"

text \<open>
  The numerator \<open>calculateHealthFactor\<close> hands to \<open>safeDiv\<close>: the result of
  \<open>calculateMaxAllowedDebt\<close> on the result of \<open>calculateUsdValue\<close>, with the
  field reductions still in place.
\<close>

definition maxAllowedDebtField :: "UInt64 \<Rightarrow> UInt64 \<Rightarrow> Field" where
  "maxAllowedDebtField collateral price =
     Field_mul
       (Field_mul (Field_mul collateral price div UNIT_PRECISION) COLLATERAL_RATIO_PRECISION
          div COLLATERAL_RATIO)
       COLLATERAL_RATIO_PRECISION"

section \<open>The vault contract\<close>

datatype PublicKey =
    ORACLE_PUBLIC_KEY
  | ZKUSD_TOKEN_ADDRESS
  | PROTOCOL_VAULT_ADDRESS
  | Account nat

record ZkUsdVault =
  collateralAmount :: UInt64
  debtAmount :: UInt64
  ownershipHash :: Field
  interactionFlag :: bool

datatype Event =
    NewVaultEvent PublicKey
  | DepositCollateralEvent PublicKey UInt64 UInt64 UInt64
  | RedeemCollateralEvent PublicKey UInt64 UInt64 UInt64
  | MintZkUsdEvent PublicKey UInt64 UInt64 UInt64
  | BurnZkUsdEvent PublicKey UInt64 UInt64 UInt64
  | LiquidateEvent PublicKey PublicKey UInt64 UInt64 UInt64

text \<open>
  What a method does outside the vault's four state fields is returned as a list of
  effects, in the order of the source: \<open>SendMina from to amount\<close> is a transfer of the
  base asset, \<open>TokenMint recipient amount\<close> and \<open>TokenBurn owner amount\<close> are the
  calls to the token contract, \<open>EmitEvent\<close> is \<open>emitEvent\<close>. A method succeeds
  when every assertion of its body passes. Whether the ledger then applies the transfers
  and whether the token contract accepts the call (the payer's funds, the burner's token
  balance) is decided outside the vault and is not part of these definitions.
\<close>

datatype Effect =
    SendMina PublicKey PublicKey UInt64
  | TokenMint PublicKey UInt64
  | TokenBurn PublicKey UInt64
  | EmitEvent Event

text \<open>
  What a method reads from outside the vault's state: the hash function
  \<open>Poseidon.hash\<close> on one field, the price \<open>oracle.getPrice()\<close> returns, the balance of
  the vault's account, the fee \<open>protocolVault.getProtocolFee()\<close> returns, the sender of
  the transaction and the vault's own address.
\<close>

record Chain =
  Poseidon_hash :: "Field \<Rightarrow> Field"
  oracle_getPrice :: UInt64
  account_balance :: UInt64
  getProtocolFee :: UInt64
  this_sender :: PublicKey
  this_address :: PublicKey

type_synonym 'a result = "error + 'a"

definition deploy :: "Chain \<Rightarrow> Field \<Rightarrow> ZkUsdVault \<times> Effect list" where
  "deploy ch secret =
     (\<lparr>collateralAmount = 0, debtAmount = 0,
       ownershipHash = Poseidon_hash ch secret, interactionFlag = False\<rparr>,
      [EmitEvent (NewVaultEvent (this_address ch))])"

definition depositCollateral ::
  "Chain \<Rightarrow> ZkUsdVault \<Rightarrow> UInt64 \<Rightarrow> Field \<Rightarrow> (ZkUsdVault \<times> Effect list) result" where
  "depositCollateral ch v amount secret =
     andThen (require (amount > 0) AMOUNT_ZERO) (\<lambda>_.
     andThen (require (ownershipHash v = Poseidon_hash ch secret) INVALID_SECRET) (\<lambda>_.
     andThen (UInt64_add (collateralAmount v) amount) (\<lambda>newCollateral.
     Inr (v\<lparr>collateralAmount := newCollateral\<rparr>,
          [SendMina (this_sender ch) (this_address ch) amount,
           EmitEvent (DepositCollateralEvent (this_address ch) amount
             (collateralAmount v) (debtAmount v))]))))"

text \<open>
  \<open>redeemCollateral\<close> reads the balance of the vault's account. On a ledger that balance
  is never below \<open>collateralAmount\<close>: deposits add the same amount to both, and only the
  vault's own methods send from the account. The definition follows the method body; what
  is proved of it below is stated for such states.
\<close>

definition redeemCollateral ::
  "Chain \<Rightarrow> ZkUsdVault \<Rightarrow> UInt64 \<Rightarrow> Field \<Rightarrow> (ZkUsdVault \<times> Effect list) result" where
  "redeemCollateral ch v amount secret =
     andThen (require (account_balance ch > 0) BALANCE_ZERO) (\<lambda>_.
     andThen (require (ownershipHash v = Poseidon_hash ch secret) INVALID_SECRET) (\<lambda>_.
     andThen (require (amount \<le> collateralAmount v) INSUFFICIENT_COLLATERAL) (\<lambda>_.
     andThen (UInt64_sub (collateralAmount v) amount) (\<lambda>remainingCollateral.
     andThen (calculateHealthFactor remainingCollateral (debtAmount v) (oracle_getPrice ch))
       (\<lambda>healthFactor.
     andThen (UInt64_assertGreaterThanOrEqual healthFactor MIN_HEALTH_FACTOR
                HEALTH_FACTOR_TOO_LOW) (\<lambda>_.
     andThen (UInt64_sub (account_balance ch) (collateralAmount v)) (\<lambda>stakingRewards.
     andThen (UInt64_mul stakingRewards (getProtocolFee ch)) (\<lambda>scaledRewards.
     andThen (UInt64_div scaledRewards PROTOCOL_FEE_PRECISION) (\<lambda>protocolFee.
     andThen (UInt64_sub stakingRewards protocolFee) (\<lambda>stakingRewardsDividend.
     andThen (UInt64_add amount stakingRewardsDividend) (\<lambda>payout.
     Inr (v\<lparr>collateralAmount := remainingCollateral\<rparr>,
          (if protocolFee > 0
           then [SendMina (this_address ch) PROTOCOL_VAULT_ADDRESS protocolFee] else []) @
          [SendMina (this_address ch) (this_sender ch) payout,
           EmitEvent (RedeemCollateralEvent (this_address ch) amount
             (collateralAmount v) (debtAmount v))]))))))))))))"

definition mintZkUsd ::
  "Chain \<Rightarrow> ZkUsdVault \<Rightarrow> PublicKey \<Rightarrow> UInt64 \<Rightarrow> Field \<Rightarrow> (ZkUsdVault \<times> Effect list) result"
  where
  "mintZkUsd ch v recipient amount secret =
     andThen (require (amount > 0) AMOUNT_ZERO) (\<lambda>_.
     andThen (require (ownershipHash v = Poseidon_hash ch secret) INVALID_SECRET) (\<lambda>_.
     andThen (UInt64_add (debtAmount v) amount) (\<lambda>hypotheticalDebt.
     andThen (calculateHealthFactor (collateralAmount v) hypotheticalDebt (oracle_getPrice ch))
       (\<lambda>healthFactor.
     andThen (UInt64_assertGreaterThanOrEqual healthFactor MIN_HEALTH_FACTOR
                HEALTH_FACTOR_TOO_LOW) (\<lambda>_.
     andThen (UInt64_add (debtAmount v) amount) (\<lambda>newDebt.
     Inr (v\<lparr>debtAmount := newDebt, interactionFlag := True\<rparr>,
          [TokenMint recipient amount,
           EmitEvent (MintZkUsdEvent (this_address ch) amount
             (collateralAmount v) (debtAmount v))])))))))"

definition burnZkUsd ::
  "Chain \<Rightarrow> ZkUsdVault \<Rightarrow> UInt64 \<Rightarrow> Field \<Rightarrow> (ZkUsdVault \<times> Effect list) result" where
  "burnZkUsd ch v amount secret =
     andThen (require (amount > 0) AMOUNT_ZERO) (\<lambda>_.
     andThen (require (ownershipHash v = Poseidon_hash ch secret) INVALID_SECRET) (\<lambda>_.
     andThen (require (debtAmount v \<ge> amount) AMOUNT_EXCEEDS_DEBT) (\<lambda>_.
     andThen (UInt64_sub (debtAmount v) amount) (\<lambda>newDebt.
     Inr (v\<lparr>debtAmount := newDebt\<rparr>,
          [TokenBurn (this_sender ch) amount,
           EmitEvent (BurnZkUsdEvent (this_address ch) amount
             (collateralAmount v) (debtAmount v))])))))"

definition liquidate :: "Chain \<Rightarrow> ZkUsdVault \<Rightarrow> (ZkUsdVault \<times> Effect list) result" where
  "liquidate ch v =
     andThen (calculateHealthFactor (collateralAmount v) (debtAmount v) (oracle_getPrice ch))
       (\<lambda>healthFactor.
     andThen (require (healthFactor \<le> MIN_HEALTH_FACTOR) HEALTH_FACTOR_TOO_HIGH) (\<lambda>_.
     Inr (v\<lparr>collateralAmount := 0, debtAmount := 0\<rparr>,
          [SendMina (this_address ch) (this_sender ch) (collateralAmount v),
           TokenBurn (this_sender ch) (debtAmount v),
           EmitEvent (LiquidateEvent (this_address ch) (this_sender ch)
             (collateralAmount v) (debtAmount v) (oracle_getPrice ch))])))"

definition getHealthFactor :: "Chain \<Rightarrow> ZkUsdVault \<Rightarrow> UInt64 result" where
  "getHealthFactor ch v =
     calculateHealthFactor (collateralAmount v) (debtAmount v) (oracle_getPrice ch)"

definition assertInteractionFlag :: "ZkUsdVault \<Rightarrow> (ZkUsdVault \<times> bool) result" where
  "assertInteractionFlag v =
     andThen (require (interactionFlag v = True) PreconditionFailed) (\<lambda>_.
     Inr (v\<lparr>interactionFlag := False\<rparr>, True))"

text \<open>
  A method call is all or nothing: when an assertion fails no transaction exists and the
  vault keeps its state; otherwise the state the method has set is committed.
\<close>

definition commit :: "ZkUsdVault \<Rightarrow> (ZkUsdVault \<times> 'a) result \<Rightarrow> ZkUsdVault" where
  "commit v r = (case r of Inl e \<Rightarrow> v | Inr (v', x) \<Rightarrow> v')"

definition succeeds :: "'a result \<Rightarrow> bool" where
  "succeeds r = (case r of Inl e \<Rightarrow> False | Inr x \<Rightarrow> True)"

section \<open>A concrete chain and vault\<close>

text \<open>
  The examples below run the methods on a fixed chain and vault. \<open>exampleHash\<close> stands in
  for \<open>Poseidon.hash\<close>; the vault's secret is 42.
\<close>

definition exampleHash :: "Field \<Rightarrow> Field" where
  "exampleHash s = Field_add (Field_mul s s) 7"

definition exampleChain :: "UInt64 \<Rightarrow> UInt64 \<Rightarrow> UInt64 \<Rightarrow> Chain" where
  "exampleChain price balance fee =
     \<lparr>Poseidon_hash = exampleHash, oracle_getPrice = price, account_balance = balance,
      getProtocolFee = fee, this_sender = Account 1, this_address = Account 2\<rparr>"

definition exampleVault :: "UInt64 \<Rightarrow> UInt64 \<Rightarrow> ZkUsdVault" where
  "exampleVault c d =
     \<lparr>collateralAmount = c, debtAmount = d, ownershipHash = exampleHash 42,
      interactionFlag = False\<rparr>"

section \<open>Properties of the arithmetic\<close>

lemma Field_ORDER_pos: "0 < Field_ORDER"
  by (simp add: Field_ORDER_def)

lemma Field_mul_small: "a * b < Field_ORDER \<Longrightarrow> Field_mul a b = a * b"
  by (simp add: Field_mul_def)

lemma Field_add_small: "a + b < Field_ORDER \<Longrightarrow> Field_add a b = a + b"
  by (simp add: Field_add_def)

lemma Field_sub_small:
  assumes "b \<le> a" and "a < Field_ORDER"
  shows "Field_sub a b = a - b"
proof -
  from assms have b: "b mod Field_ORDER = b" by simp
  from assms have "a + (Field_ORDER - b) = (a - b) + Field_ORDER" by simp
  moreover from assms have "a - b < Field_ORDER" by simp
  ultimately show ?thesis
    by (simp add: Field_sub_def b)
qed

lemma Field_mul_less: "Field_mul a b < Field_ORDER"
  by (simp add: Field_mul_def Field_ORDER_pos)

lemma andThen_Inr: "andThen (Inr x) f = f x"
  by (simp add: andThen_def)

lemma andThen_Inl: "andThen (Inl e) f = Inl e"
  by (simp add: andThen_def)

lemma fieldIntegerDiv_parts:
  assumes "x < Field_ORDER" and "y \<noteq> 0"
  shows "Field_mul (x div y) y = x div y * y"
    and "Field_sub x (x div y * y) = x mod y"
    and "Field_add (x div y * y) (x mod y) = x"
proof -
  have le: "x div y * y \<le> x"
    by simp
  with assms show m: "Field_mul (x div y) y = x div y * y"
    by (intro Field_mul_small) (rule le_less_trans)
  from le assms have "Field_sub x (x div y * y) = x - x div y * y"
    by (intro Field_sub_small)
  then show "Field_sub x (x div y * y) = x mod y"
    by (simp add: minus_div_mult_eq_mod)
  from assms show "Field_add (x div y * y) (x mod y) = x"
    by (simp add: Field_add_def)
qed

lemma fieldIntegerDiv_value:
  assumes "x < Field_ORDER" and "y \<noteq> 0"
  shows "fieldIntegerDiv x y = Inr (x div y)"
proof -
  from assms have "x mod y < y"
    by simp
  then show ?thesis
    using assms by (simp add: fieldIntegerDiv_def Let_def fieldIntegerDiv_parts)
qed

text \<open>
  C7. For a field element \<open>x\<close> and a denominator \<open>y \<noteq> 0\<close>, \<open>fieldIntegerDiv\<close> returns
  \<open>q = floor (x / y)\<close>, and the constraints it asserts hold for that \<open>q\<close>: with
  \<open>r = x - q * y\<close> computed in the field, \<open>x = q * y + r\<close> (in the field and over the
  integers) and \<open>0 \<le> r < y\<close>. With \<open>y = 0\<close> it fails with the division-by-zero error.
\<close>

theorem fieldIntegerDiv_correct:
  "(isField x \<and> y \<noteq> 0 \<longrightarrow>
      fieldIntegerDiv x y = Inr (x div y)
    \<and> x = Field_add (Field_mul (x div y) y) (Field_sub x (Field_mul (x div y) y))
    \<and> x = x div y * y + Field_sub x (Field_mul (x div y) y)
    \<and> 0 \<le> Field_sub x (Field_mul (x div y) y)
    \<and> Field_sub x (Field_mul (x div y) y) < y)
   \<and> fieldIntegerDiv x 0 = Inl DivisionByZero"
proof (intro conjI impI)
  assume a: "isField x \<and> y \<noteq> 0"
  then have x: "x < Field_ORDER" and y: "y \<noteq> 0"
    by (simp_all add: isField_def)
  note parts = fieldIntegerDiv_parts [OF x y]
  show "fieldIntegerDiv x y = Inr (x div y)"
    using x y by (rule fieldIntegerDiv_value)
  show "x = Field_add (Field_mul (x div y) y) (Field_sub x (Field_mul (x div y) y))"
    by (simp only: parts)
  show "x = x div y * y + Field_sub x (Field_mul (x div y) y)"
    by (simp only: parts) simp
  show "0 \<le> Field_sub x (Field_mul (x div y) y)"
    by simp
  show "Field_sub x (Field_mul (x div y) y) < y"
    using y by (simp only: parts) simp
next
  show "fieldIntegerDiv x 0 = Inl DivisionByZero"
    by (simp add: fieldIntegerDiv_def)
qed

theorem fieldIntegerDiv_correct_witness:
  "isField 17 \<and> (5::nat) \<noteq> 0
   \<and> fieldIntegerDiv 17 5 = Inr 3
   \<and> Field_sub 17 (Field_mul 3 5) = 2
   \<and> fieldIntegerDiv 17 0 = Inl DivisionByZero"
proof -
  have h: "isField 17 \<and> (5::nat) \<noteq> 0"
    by (simp add: isField_def Field_ORDER_def)
  have r: "Field_sub 17 (Field_mul 3 5) = 2"
    by (simp add: Field_sub_def Field_mul_def Field_ORDER_def)
  from fieldIntegerDiv_correct [of 17 5] h
  have "fieldIntegerDiv 17 5 = Inr (17 div 5)" and "fieldIntegerDiv 17 0 = Inl DivisionByZero"
    by blast+
  then show ?thesis
    using h r by simp
qed

subsection \<open>The health factor in closed form\<close>

lemma safeDiv_value:
  assumes "n < Field_ORDER"
  shows "safeDiv n d = Inr (if d = 0 then MAXINT else n div d)"
  using assms by (simp add: safeDiv_def Let_def fieldIntegerDiv_value andThen_Inr)

lemma calculateUsdValue_value:
  "calculateUsdValue c p = Inr (Field_mul c p div UNIT_PRECISION)"
  by (simp add: calculateUsdValue_def Let_def fieldIntegerDiv_value Field_mul_less
      UNIT_PRECISION_def)

lemma calculateMaxAllowedDebt_value:
  "calculateMaxAllowedDebt cv =
     Inr (Field_mul (Field_mul cv COLLATERAL_RATIO_PRECISION div COLLATERAL_RATIO)
            COLLATERAL_RATIO_PRECISION)"
  by (simp add: calculateMaxAllowedDebt_def Let_def fieldIntegerDiv_value Field_mul_less
      COLLATERAL_RATIO_def andThen_Inr)

lemma calculateHealthFactor_value:
  "calculateHealthFactor c d p =
     Inr (if d = 0 then MAXINT else maxAllowedDebtField c p div d)"
  by (simp add: calculateHealthFactor_def calculateUsdValue_value
      calculateMaxAllowedDebt_value andThen_Inr safeDiv_value Field_mul_less
      maxAllowedDebtField_def)

lemma UInt64_product_small:
  assumes "isUInt64 c" and "isUInt64 p"
  shows "c * p < 340282366920938463463374607431768211456"
proof -
  from assms have "c * p \<le> MAXINT * MAXINT"
    unfolding isUInt64_def by (rule mult_le_mono)
  also have "\<dots> < 340282366920938463463374607431768211456"
    by (simp add: MAXINT_def)
  finally show ?thesis .
qed

lemma maxAllowedDebtField_exact:
  assumes "isUInt64 c" and "isUInt64 p"
  shows "maxAllowedDebtField c p = c * p div 1000000000 * 100 div 150 * 100"
proof -
  have cp: "c * p < 340282366920938463463374607431768211456"
    using assms by (rule UInt64_product_small)
  then have m1: "Field_mul c p = c * p"
    by (intro Field_mul_small) (simp add: Field_ORDER_def)
  have cv: "c * p div 1000000000 \<le> c * p"
    by simp
  with cp have m2: "Field_mul (c * p div 1000000000) 100 = c * p div 1000000000 * 100"
    by (intro Field_mul_small) (simp add: Field_ORDER_def)
  have "c * p div 1000000000 * 100 div 150 \<le> c * p"
    using cv by linarith
  with cp have m3: "Field_mul (c * p div 1000000000 * 100 div 150) 100
      = c * p div 1000000000 * 100 div 150 * 100"
    by (intro Field_mul_small) (simp add: Field_ORDER_def)
  show ?thesis
    unfolding maxAllowedDebtField_def UNIT_PRECISION_def COLLATERAL_RATIO_def
      COLLATERAL_RATIO_PRECISION_def
    by (simp only: m1 m2 m3)
qed

lemmas hf_eval = calculateHealthFactor_value maxAllowedDebtField_def Field_mul_def
  UNIT_PRECISION_def COLLATERAL_RATIO_def COLLATERAL_RATIO_PRECISION_def Field_ORDER_def

text \<open>
  C1. For all 64-bit \<open>collateralAmount\<close>, \<open>debtAmount\<close> and \<open>price\<close>,
  \<open>calculateHealthFactor\<close> equals \<open>safeDiv\<close> of
  \<open>floor (floor (collateralAmount * price / 1e9) * 100 / 150) * 100\<close> and the debt, which is
  the maximum 64-bit value for a zero debt and the floored quotient otherwise; at
  \<open>(1e9, 1e9, 1e9)\<close> it is 66, at \<open>(2e9, 1e9, 1e9)\<close> it is 133 and at
  \<open>(1.5e9, 1e9, 1e9)\<close> it is 100.
\<close>

theorem calculateHealthFactor_formula:
  "(isUInt64 c \<and> isUInt64 d \<and> isUInt64 p \<longrightarrow>
      calculateHealthFactor c d p = safeDiv (c * p div 1000000000 * 100 div 150 * 100) d
    \<and> calculateHealthFactor c d p =
        Inr (if d = 0 then MAXINT else c * p div 1000000000 * 100 div 150 * 100 div d))
   \<and> calculateHealthFactor 1000000000 1000000000 1000000000 = Inr 66
   \<and> calculateHealthFactor 2000000000 1000000000 1000000000 = Inr 133
   \<and> calculateHealthFactor 1500000000 1000000000 1000000000 = Inr 100"
proof (intro conjI impI)
  assume a: "isUInt64 c \<and> isUInt64 d \<and> isUInt64 p"
  then have m: "maxAllowedDebtField c p = c * p div 1000000000 * 100 div 150 * 100"
    by (simp only: maxAllowedDebtField_exact)
  have lt: "maxAllowedDebtField c p < Field_ORDER"
    unfolding maxAllowedDebtField_def by (rule Field_mul_less)
  show "calculateHealthFactor c d p =
      Inr (if d = 0 then MAXINT else c * p div 1000000000 * 100 div 150 * 100 div d)"
    by (simp only: calculateHealthFactor_value m)
  show "calculateHealthFactor c d p = safeDiv (c * p div 1000000000 * 100 div 150 * 100) d"
    using lt by (simp only: calculateHealthFactor_value safeDiv_value m)
next
  show "calculateHealthFactor 1000000000 1000000000 1000000000 = Inr 66"
    by (simp add: hf_eval)
  show "calculateHealthFactor 2000000000 1000000000 1000000000 = Inr 133"
    by (simp add: hf_eval)
  show "calculateHealthFactor 1500000000 1000000000 1000000000 = Inr 100"
    by (simp add: hf_eval)
qed

theorem calculateHealthFactor_formula_witness:
  "isUInt64 3000000000 \<and> isUInt64 7 \<and> isUInt64 2000000000
   \<and> calculateHealthFactor 3000000000 7 2000000000 = Inr 57142857142"
proof -
  have h: "isUInt64 3000000000 \<and> isUInt64 7 \<and> isUInt64 2000000000"
    by (simp add: isUInt64_def MAXINT_def)
  with calculateHealthFactor_formula [of 3000000000 7 2000000000]
  have "calculateHealthFactor 3000000000 7 2000000000 =
      Inr (if (7::nat) = 0 then MAXINT
           else 3000000000 * 2000000000 div 1000000000 * 100 div 150 * 100 div 7)"
    by blast
  then show ?thesis
    using h by simp
qed

text \<open>
  C4. With a zero debt \<open>calculateHealthFactor\<close> returns the maximum 64-bit value
  \<open>2 ^ 64 - 1\<close>, whatever the collateral and the price. The computation is total: it
  returns a value on every input and never raises the division-by-zero error, since the
  two inner divisions have the constant denominators \<open>1e9\<close> and \<open>150\<close> and \<open>safeDiv\<close>
  divides by 1 in place of a zero denominator.
\<close>

theorem calculateHealthFactor_zero_debt:
  "calculateHealthFactor c 0 p = Inr MAXINT
   \<and> MAXINT = 2 ^ 64 - 1
   \<and> (\<exists>h. calculateHealthFactor c d p = Inr h)
   \<and> calculateHealthFactor c d p \<noteq> Inl DivisionByZero
   \<and> calculateUsdValue c p \<noteq> Inl DivisionByZero
   \<and> calculateMaxAllowedDebt n \<noteq> Inl DivisionByZero
   \<and> safeDiv n d \<noteq> Inl DivisionByZero
   \<and> safeDiv n 0 = andThen (fieldIntegerDiv n 1) (\<lambda>q. Inr MAXINT)"
proof (intro conjI)
  show "calculateHealthFactor c 0 p = Inr MAXINT"
    by (simp add: calculateHealthFactor_value)
  show "MAXINT = 2 ^ 64 - 1"
    by (simp add: MAXINT_def)
  show "\<exists>h. calculateHealthFactor c d p = Inr h"
    by (simp add: calculateHealthFactor_value)
  show "calculateHealthFactor c d p \<noteq> Inl DivisionByZero"
    by (simp add: calculateHealthFactor_value)
  show "calculateUsdValue c p \<noteq> Inl DivisionByZero"
    by (simp add: calculateUsdValue_value)
  show "calculateMaxAllowedDebt n \<noteq> Inl DivisionByZero"
    by (simp add: calculateMaxAllowedDebt_value)
  show "safeDiv n d \<noteq> Inl DivisionByZero"
    by (simp add: safeDiv_def Let_def fieldIntegerDiv_def andThen_def)
  show "safeDiv n 0 = andThen (fieldIntegerDiv n 1) (\<lambda>q. Inr MAXINT)"
    by (simp add: safeDiv_def Let_def)
qed

subsection \<open>Scaling collateral and debt\<close>

lemma scale_div_le:
  fixes a n k :: nat
  assumes "0 < n"
  shows "k * (a div n) \<le> k * a div n"
proof -
  have "a div n * n \<le> a"
    by simp
  then have "k * (a div n * n) \<le> k * a"
    by (rule mult_le_mono2)
  then have "k * (a div n) * n \<le> k * a"
    by (simp add: mult.assoc)
  with assms show ?thesis
    by (simp add: less_eq_div_iff_mult_less_eq)
qed

lemma numerator_scale_le:
  fixes c p k :: nat
  shows "k * (c * p div 1000000000 * 100 div 150 * 100)
           \<le> k * c * p div 1000000000 * 100 div 150 * 100"
proof -
  have a: "k * (c * p div 1000000000) \<le> k * (c * p) div 1000000000"
    by (rule scale_div_le) simp
  have "k * (c * p div 1000000000 * 100 div 150) \<le> k * (c * p div 1000000000 * 100) div 150"
    by (rule scale_div_le) simp
  also have "\<dots> = k * (c * p div 1000000000) * 100 div 150"
    by (simp add: mult.assoc)
  also have "\<dots> \<le> k * (c * p) div 1000000000 * 100 div 150"
    using a by (intro div_le_mono mult_le_mono1)
  finally have "k * (c * p div 1000000000 * 100 div 150) * 100
      \<le> k * (c * p) div 1000000000 * 100 div 150 * 100"
    by (rule mult_le_mono1)
  then show ?thesis
    by (simp only: mult.assoc)
qed

lemma numerator_scale_eq:
  fixes c p k :: nat
  assumes "3000000000 dvd c * p"
  shows "k * c * p div 1000000000 * 100 div 150 * 100
           = k * (c * p div 1000000000 * 100 div 150 * 100)"
proof -
  have m: "3000000000 * t div 1000000000 * 100 div 150 * 100 = 200 * t" for t :: nat
    by simp
  from assms obtain t where t: "c * p = 3000000000 * t"
    by (auto simp: dvd_def)
  then have kt: "k * c * p = 3000000000 * (k * t)"
    by (simp add: mult.assoc)
  show ?thesis
    unfolding t kt m by simp
qed

lemma isUInt64_scaled:
  assumes "0 < k" and "isUInt64 (k * c)"
  shows "isUInt64 c"
proof -
  from assms(1) have "c \<le> k * c"
    by simp
  with assms(2) show ?thesis
    unfolding isUInt64_def by linarith
qed

lemma hf_closed:
  assumes "isUInt64 c" and "isUInt64 p"
  shows "calculateHealthFactor c d p =
      Inr (if d = 0 then MAXINT else c * p div 1000000000 * 100 div 150 * 100 div d)"
  using assms by (simp only: calculateHealthFactor_value maxAllowedDebtField_exact)

text \<open>
  C5, as amended. Scaling collateral and debt by the same positive factor \<open>k\<close> (with
  \<open>k * c\<close> and \<open>k * d\<close> still 64-bit values) never lowers the health factor, and
  leaves it unchanged when the debt is zero or \<open>c * price\<close> is a multiple of \<open>3e9\<close>, so
  that neither inner floor truncates. In general the two differ: the floors are taken
  before the division by the debt.
\<close>

theorem calculateHealthFactor_scaling:
  "0 < k \<and> isUInt64 (k * c) \<and> isUInt64 (k * d) \<and> isUInt64 p \<longrightarrow>
     (\<exists>h h'. calculateHealthFactor c d p = Inr h
        \<and> calculateHealthFactor (k * c) (k * d) p = Inr h' \<and> h \<le> h')
   \<and> (d = 0 \<or> 3000000000 dvd c * p \<longrightarrow>
        calculateHealthFactor (k * c) (k * d) p = calculateHealthFactor c d p)"
proof (intro impI)
  assume a: "0 < k \<and> isUInt64 (k * c) \<and> isUInt64 (k * d) \<and> isUInt64 p"
  then have k: "0 < k" and kc: "isUInt64 (k * c)" and p: "isUInt64 p"
    by simp_all
  from k kc have c: "isUInt64 c"
    by (rule isUInt64_scaled)
  note h = hf_closed [OF c p, of d]
  note h' = hf_closed [OF kc p, of "k * d"]
  have le: "d \<noteq> 0 \<Longrightarrow> c * p div 1000000000 * 100 div 150 * 100 div d
      \<le> k * c * p div 1000000000 * 100 div 150 * 100 div (k * d)"
  proof -
    assume "d \<noteq> 0"
    have "c * p div 1000000000 * 100 div 150 * 100 div d
        = k * (c * p div 1000000000 * 100 div 150 * 100) div (k * d)"
      using k by simp
    also have "\<dots> \<le> k * c * p div 1000000000 * 100 div 150 * 100 div (k * d)"
      by (intro div_le_mono numerator_scale_le)
    finally show ?thesis .
  qed
  have eq: "3000000000 dvd c * p \<Longrightarrow>
      k * c * p div 1000000000 * 100 div 150 * 100 div (k * d)
        = c * p div 1000000000 * 100 div 150 * 100 div d"
    using k by (simp only: numerator_scale_eq) simp
  show "(\<exists>h h'. calculateHealthFactor c d p = Inr h
        \<and> calculateHealthFactor (k * c) (k * d) p = Inr h' \<and> h \<le> h')
   \<and> (d = 0 \<or> 3000000000 dvd c * p \<longrightarrow>
        calculateHealthFactor (k * c) (k * d) p = calculateHealthFactor c d p)"
    unfolding h h' using k le eq by auto
qed

theorem calculateHealthFactor_scaling_witness:
  "(0::nat) < 3 \<and> isUInt64 (3 * 3000000000) \<and> isUInt64 (3 * 1000000000) \<and> isUInt64 1000000000
   \<and> (3000000000::nat) dvd 3000000000 * 1000000000
   \<and> calculateHealthFactor (3 * 3000000000) (3 * 1000000000) 1000000000
       = calculateHealthFactor 3000000000 1000000000 1000000000
   \<and> calculateHealthFactor 3000000000 1000000000 1000000000 = Inr 200"
proof -
  have h: "(0::nat) < 3 \<and> isUInt64 (3 * 3000000000) \<and> isUInt64 (3 * 1000000000)
      \<and> isUInt64 1000000000"
    by (simp add: isUInt64_def MAXINT_def)
  have d: "(3000000000::nat) dvd 3000000000 * 1000000000"
    by simp
  from calculateHealthFactor_scaling [of 3 3000000000 1000000000 1000000000] h d
  have "calculateHealthFactor (3 * 3000000000) (3 * 1000000000) 1000000000
       = calculateHealthFactor 3000000000 1000000000 1000000000"
    by blast
  moreover have "calculateHealthFactor 3000000000 1000000000 1000000000 = Inr 200"
    by (simp add: hf_eval)
  ultimately show ?thesis
    using h d by blast
qed

text \<open>
  The unamended claim fails at \<open>c = 1\<close>, \<open>d = 1\<close>, \<open>price = 1.5e9\<close>, \<open>k = 2\<close>: the
  collateral value \<open>floor 1.5 = 1\<close> allows no debt, health factor 0, while the doubled
  vault has collateral value 3, allowed debt 200 and health factor 100.
\<close>

theorem calculateHealthFactor_scaling_counterexample:
  "(0::nat) < 2 \<and> isUInt64 (2 * 1) \<and> isUInt64 1500000000
   \<and> calculateHealthFactor 1 1 1500000000 = Inr 0
   \<and> calculateHealthFactor (2 * 1) (2 * 1) 1500000000 = Inr 100
   \<and> calculateHealthFactor 1 1 1500000000 \<noteq> calculateHealthFactor (2 * 1) (2 * 1) 1500000000"
  by (simp add: hf_eval isUInt64_def MAXINT_def)

section \<open>The vault's methods\<close>

subsection \<open>Unfolding the methods, and the example chain\<close>

lemmas op_defs = andThen_def require_def UInt64_add_def UInt64_sub_def UInt64_mul_def
  UInt64_div_def succeeds_def commit_def MIN_HEALTH_FACTOR_def PROTOCOL_FEE_PRECISION_def

lemmas example_defs = exampleChain_def exampleVault_def exampleHash_def Field_add_def
  MAXINT_def

lemma example_hash_ok:
  "ownershipHash (exampleVault c d) = Poseidon_hash (exampleChain p b f) 42"
  by (simp add: exampleChain_def exampleVault_def)


lemma example_sel:
  "collateralAmount (exampleVault c d) = c"
  "debtAmount (exampleVault c d) = d"
  "interactionFlag (exampleVault c d) = False"
  "oracle_getPrice (exampleChain p b f) = p"
  "account_balance (exampleChain p b f) = b"
  "getProtocolFee (exampleChain p b f) = f"
  "this_sender (exampleChain p b f) = Account 1"
  "this_address (exampleChain p b f) = Account 2"
  by (simp_all add: exampleChain_def exampleVault_def)

lemma example_upd:
  "(exampleVault c d)\<lparr>collateralAmount := c'\<rparr> = exampleVault c' d"
  "(exampleVault c d)\<lparr>debtAmount := d'\<rparr> = exampleVault c d'"
  by (simp_all add: exampleVault_def)

text \<open>
  The guard of \<open>mintZkUsd\<close> and \<open>redeemCollateral\<close> in numbers: a health factor is a
  field element, so the range check of its difference to \<open>MIN_HEALTH_FACTOR\<close> passes
  exactly between 100 and \<open>2 ^ 64 + 99\<close>.
\<close>

lemma assertGreaterThanOrEqual_MIN:
  assumes "h < Field_ORDER"
  shows "UInt64_assertGreaterThanOrEqual h MIN_HEALTH_FACTOR e =
     require (100 \<le> h \<and> h \<le> MAXINT + 100) e"
proof (cases "100 \<le> h")
  case True
  with assms have "Field_sub h 100 = h - 100"
    by (intro Field_sub_small)
  with True show ?thesis
    by (auto simp: UInt64_assertGreaterThanOrEqual_def MIN_HEALTH_FACTOR_def require_def)
next
  case False
  then have "h + (Field_ORDER - 100) < Field_ORDER"
    by (simp add: Field_ORDER_def)
  then have "Field_sub h 100 = h + (Field_ORDER - 100)"
    by (simp add: Field_sub_def Field_ORDER_def)
  then have "MAXINT < Field_sub h 100"
    by (simp add: Field_ORDER_def MAXINT_def)
  with False show ?thesis
    by (simp add: UInt64_assertGreaterThanOrEqual_def MIN_HEALTH_FACTOR_def require_def)
qed

lemma calculateHealthFactor_less:
  assumes "calculateHealthFactor c d p = Inr h"
  shows "h < Field_ORDER"
proof (cases "d = 0")
  case True
  with assms show ?thesis
    by (simp add: calculateHealthFactor_value MAXINT_def Field_ORDER_def)
next
  case False
  have "maxAllowedDebtField c p div d \<le> maxAllowedDebtField c p"
    by simp
  also have "\<dots> < Field_ORDER"
    unfolding maxAllowedDebtField_def by (rule Field_mul_less)
  finally show ?thesis
    using assms False by (simp add: calculateHealthFactor_value)
qed

lemma healthFactor_guard:
  "andThen (calculateHealthFactor c d p)
     (\<lambda>h. andThen (UInt64_assertGreaterThanOrEqual h MIN_HEALTH_FACTOR e) k) =
   andThen (calculateHealthFactor c d p)
     (\<lambda>h. andThen (require (100 \<le> h \<and> h \<le> MAXINT + 100) e) k)"
proof (cases "calculateHealthFactor c d p")
  case (Inl x)
  then show ?thesis
    by (simp add: andThen_Inl)
next
  case (Inr h)
  then have "h < Field_ORDER"
    by (rule calculateHealthFactor_less)
  then show ?thesis
    by (simp add: Inr andThen_Inr assertGreaterThanOrEqual_MIN)
qed

lemma mintZkUsd_alt:
  "mintZkUsd ch v recipient amount secret =
     andThen (require (amount > 0) AMOUNT_ZERO) (\<lambda>_.
     andThen (require (ownershipHash v = Poseidon_hash ch secret) INVALID_SECRET) (\<lambda>_.
     andThen (UInt64_add (debtAmount v) amount) (\<lambda>hypotheticalDebt.
     andThen (calculateHealthFactor (collateralAmount v) hypotheticalDebt (oracle_getPrice ch))
       (\<lambda>healthFactor.
     andThen (require (100 \<le> healthFactor \<and> healthFactor \<le> MAXINT + 100)
                HEALTH_FACTOR_TOO_LOW) (\<lambda>_.
     andThen (UInt64_add (debtAmount v) amount) (\<lambda>newDebt.
     Inr (v\<lparr>debtAmount := newDebt, interactionFlag := True\<rparr>,
          [TokenMint recipient amount,
           EmitEvent (MintZkUsdEvent (this_address ch) amount
             (collateralAmount v) (debtAmount v))])))))))"
  unfolding mintZkUsd_def healthFactor_guard ..

lemma redeemCollateral_alt:
  "redeemCollateral ch v amount secret =
     andThen (require (account_balance ch > 0) BALANCE_ZERO) (\<lambda>_.
     andThen (require (ownershipHash v = Poseidon_hash ch secret) INVALID_SECRET) (\<lambda>_.
     andThen (require (amount \<le> collateralAmount v) INSUFFICIENT_COLLATERAL) (\<lambda>_.
     andThen (UInt64_sub (collateralAmount v) amount) (\<lambda>remainingCollateral.
     andThen (calculateHealthFactor remainingCollateral (debtAmount v) (oracle_getPrice ch))
       (\<lambda>healthFactor.
     andThen (require (100 \<le> healthFactor \<and> healthFactor \<le> MAXINT + 100)
                HEALTH_FACTOR_TOO_LOW) (\<lambda>_.
     andThen (UInt64_sub (account_balance ch) (collateralAmount v)) (\<lambda>stakingRewards.
     andThen (UInt64_mul stakingRewards (getProtocolFee ch)) (\<lambda>scaledRewards.
     andThen (UInt64_div scaledRewards PROTOCOL_FEE_PRECISION) (\<lambda>protocolFee.
     andThen (UInt64_sub stakingRewards protocolFee) (\<lambda>stakingRewardsDividend.
     andThen (UInt64_add amount stakingRewardsDividend) (\<lambda>payout.
     Inr (v\<lparr>collateralAmount := remainingCollateral\<rparr>,
          (if protocolFee > 0
           then [SendMina (this_address ch) PROTOCOL_VAULT_ADDRESS protocolFee] else []) @
          [SendMina (this_address ch) (this_sender ch) payout,
           EmitEvent (RedeemCollateralEvent (this_address ch) amount
             (collateralAmount v) (debtAmount v))]))))))))))))"
  unfolding redeemCollateral_def healthFactor_guard ..

subsection \<open>depositCollateral\<close>

lemma depositCollateral_run:
  "depositCollateral ch v amount secret =
     (if amount = 0 then Inl AMOUNT_ZERO
      else if ownershipHash v \<noteq> Poseidon_hash ch secret then Inl INVALID_SECRET
      else if MAXINT < collateralAmount v + amount then Inl UInt64Overflow
      else Inr (v\<lparr>collateralAmount := collateralAmount v + amount\<rparr>,
                [SendMina (this_sender ch) (this_address ch) amount,
                 EmitEvent (DepositCollateralEvent (this_address ch) amount
                   (collateralAmount v) (debtAmount v))]))"
  by (simp add: depositCollateral_def andThen_def require_def UInt64_add_def)

text \<open>
  C8, as amended. With \<open>amount > 0\<close>, a secret hashing to the ownership commitment and
  \<open>collateralAmount + amount\<close> within 64 bits, \<open>depositCollateral\<close> succeeds and changes
  nothing of the vault but \<open>collateralAmount\<close>, which grows by exactly \<open>amount\<close>; when the
  sum exceeds 64 bits the checked addition rejects the call. It rejects with \<open>AMOUNT_ZERO\<close>
  when \<open>amount = 0\<close> and, for a positive amount, with \<open>INVALID_SECRET\<close> when the secret is
  wrong. Every rejected call leaves the vault as it was.
\<close>

theorem depositCollateral_effect:
  "(0 < amount \<and> ownershipHash v = Poseidon_hash ch secret
      \<and> collateralAmount v + amount \<le> MAXINT \<longrightarrow>
        depositCollateral ch v amount secret =
          Inr (v\<lparr>collateralAmount := collateralAmount v + amount\<rparr>,
               [SendMina (this_sender ch) (this_address ch) amount,
                EmitEvent (DepositCollateralEvent (this_address ch) amount
                  (collateralAmount v) (debtAmount v))])
      \<and> commit v (depositCollateral ch v amount secret) =
          v\<lparr>collateralAmount := collateralAmount v + amount\<rparr>)
   \<and> (0 < amount \<and> ownershipHash v = Poseidon_hash ch secret
      \<and> MAXINT < collateralAmount v + amount \<longrightarrow>
        depositCollateral ch v amount secret = Inl UInt64Overflow)
   \<and> depositCollateral ch v 0 secret = Inl AMOUNT_ZERO
   \<and> (0 < amount \<and> ownershipHash v \<noteq> Poseidon_hash ch secret \<longrightarrow>
        depositCollateral ch v amount secret = Inl INVALID_SECRET)
   \<and> (\<not> succeeds (depositCollateral ch v amount secret) \<longrightarrow>
        commit v (depositCollateral ch v amount secret) = v)"
proof (intro conjI impI)
  assume ok: "0 < amount \<and> ownershipHash v = Poseidon_hash ch secret
      \<and> collateralAmount v + amount \<le> MAXINT"
  then show r: "depositCollateral ch v amount secret =
          Inr (v\<lparr>collateralAmount := collateralAmount v + amount\<rparr>,
               [SendMina (this_sender ch) (this_address ch) amount,
                EmitEvent (DepositCollateralEvent (this_address ch) amount
                  (collateralAmount v) (debtAmount v))])"
    by (simp add: depositCollateral_run)
  show "commit v (depositCollateral ch v amount secret) =
          v\<lparr>collateralAmount := collateralAmount v + amount\<rparr>"
    by (simp add: r commit_def)
next
  assume "0 < amount \<and> ownershipHash v = Poseidon_hash ch secret
      \<and> MAXINT < collateralAmount v + amount"
  then show "depositCollateral ch v amount secret = Inl UInt64Overflow"
    by (simp add: depositCollateral_run)
next
  show "depositCollateral ch v 0 secret = Inl AMOUNT_ZERO"
    by (simp add: depositCollateral_run)
next
  assume "0 < amount \<and> ownershipHash v \<noteq> Poseidon_hash ch secret"
  then show "depositCollateral ch v amount secret = Inl INVALID_SECRET"
    by (simp add: depositCollateral_run)
next
  assume "\<not> succeeds (depositCollateral ch v amount secret)"
  then show "commit v (depositCollateral ch v amount secret) = v"
    by (cases "depositCollateral ch v amount secret") (simp_all add: succeeds_def commit_def)
qed

theorem depositCollateral_effect_witness:
  "depositCollateral (exampleChain 1000000000 0 0) (exampleVault 5 3) 10 42 =
      Inr (exampleVault 15 3,
           [SendMina (Account 1) (Account 2) 10,
            EmitEvent (DepositCollateralEvent (Account 2) 10 5 3)])
   \<and> depositCollateral (exampleChain 1000000000 0 0) (exampleVault MAXINT 3) 10 42 =
      Inl UInt64Overflow
   \<and> depositCollateral (exampleChain 1000000000 0 0) (exampleVault 5 3) 10 41 =
      Inl INVALID_SECRET
   \<and> commit (exampleVault 5 3)
        (depositCollateral (exampleChain 1000000000 0 0) (exampleVault 5 3) 10 41) =
      exampleVault 5 3"
proof -
  let ?ch = "exampleChain 1000000000 0 0"
  have ok: "ownershipHash (exampleVault c d) = Poseidon_hash ?ch 42" for c d
    by (simp add: example_defs)
  have bad: "ownershipHash (exampleVault c d) \<noteq> Poseidon_hash ?ch 41" for c d
    by (simp add: example_defs Field_mul_def Field_ORDER_def)
  have sel: "collateralAmount (exampleVault c d) = c" "debtAmount (exampleVault c d) = d"
    "this_sender ?ch = Account 1" "this_address ?ch = Account 2" for c d
    by (simp_all add: example_defs)
  have upd: "(exampleVault c d)\<lparr>collateralAmount := c'\<rparr> = exampleVault c' d" for c d c'
    by (simp add: exampleVault_def)
  have 1: "depositCollateral ?ch (exampleVault 5 3) 10 42 =
      Inr (exampleVault 15 3,
           [SendMina (Account 1) (Account 2) 10,
            EmitEvent (DepositCollateralEvent (Account 2) 10 5 3)])"
    using depositCollateral_effect [of 10 "exampleVault 5 3" ?ch 42] ok
    by (simp add: sel upd MAXINT_def)
  have 2: "depositCollateral ?ch (exampleVault MAXINT 3) 10 42 = Inl UInt64Overflow"
    using depositCollateral_effect [of 10 "exampleVault MAXINT 3" ?ch 42] ok
    by (simp add: sel)
  have 3: "depositCollateral ?ch (exampleVault 5 3) 10 41 = Inl INVALID_SECRET"
    using depositCollateral_effect [of 10 "exampleVault 5 3" ?ch 41] bad
    by simp
  have 4: "commit (exampleVault 5 3) (depositCollateral ?ch (exampleVault 5 3) 10 41) =
      exampleVault 5 3"
    using depositCollateral_effect [of 10 "exampleVault 5 3" ?ch 41] 3
    by (simp add: succeeds_def)
  from 1 2 3 4 show ?thesis
    by blast
qed

text \<open>
  The unamended claim fails for a vault holding the maximum 64-bit collateral: a deposit
  of 1 with the right secret is rejected by the overflow check of \<open>UInt64.add\<close>, so the
  collateral does not grow.
\<close>

theorem depositCollateral_counterexample:
  "(0::nat) < 1
   \<and> ownershipHash (exampleVault MAXINT 0) = Poseidon_hash (exampleChain 1000000000 MAXINT 0) 42
   \<and> depositCollateral (exampleChain 1000000000 MAXINT 0) (exampleVault MAXINT 0) 1 42 =
        Inl UInt64Overflow
   \<and> collateralAmount (commit (exampleVault MAXINT 0)
        (depositCollateral (exampleChain 1000000000 MAXINT 0) (exampleVault MAXINT 0) 1 42))
      \<noteq> collateralAmount (exampleVault MAXINT 0) + 1"
  by (simp add: depositCollateral_def op_defs exampleChain_def exampleVault_def)

subsection \<open>mintZkUsd\<close>





subsection \<open>liquidate\<close>

text \<open>
  The guard of \<open>liquidate\<close> is the range check of \<open>MIN_HEALTH_FACTOR - healthFactor\<close>.
  For a health factor computed from 64-bit collateral and price it is the comparison
  \<open>healthFactor \<le> MIN_HEALTH_FACTOR\<close>, as the definition has it.
\<close>

lemma maxAllowedDebtField_bound:
  assumes "isUInt64 c" and "isUInt64 p"
  shows "maxAllowedDebtField c p < 34028236692093846346337460743176821145600"
proof -
  have cp: "c * p < 340282366920938463463374607431768211456"
    using assms by (rule UInt64_product_small)
  have "c * p div 1000000000 * 100 div 150 \<le> c * p div 1000000000 * 100"
    by (rule div_le_dividend)
  also have "\<dots> \<le> c * p * 100"
    by (intro mult_le_mono1 div_le_dividend)
  finally have le: "c * p div 1000000000 * 100 div 150 * 100 \<le> c * p * 100 * 100"
    by (rule mult_le_mono1)
  have e: "maxAllowedDebtField c p = c * p div 1000000000 * 100 div 150 * 100"
    using assms by (rule maxAllowedDebtField_exact)
  from cp le show ?thesis
    unfolding e by linarith
qed

lemma assertLessThanOrEqual_MIN:
  assumes "isUInt64 c" and "isUInt64 p" and "calculateHealthFactor c d p = Inr h"
  shows "Field_sub MIN_HEALTH_FACTOR h \<le> MAXINT \<longleftrightarrow> h \<le> MIN_HEALTH_FACTOR"
proof (cases "h \<le> 100")
  case True
  then have "Field_sub 100 h = 100 - h"
    by (intro Field_sub_small) (simp_all add: Field_ORDER_def)
  with True show ?thesis
    by (simp add: MIN_HEALTH_FACTOR_def MAXINT_def)
next
  case False
  have "h \<le> 34028236692093846346337460743176821145600"
  proof (cases "d = 0")
    case True
    with assms(3) show ?thesis
      by (simp add: calculateHealthFactor_value MAXINT_def)
  next
    case False
    have "maxAllowedDebtField c p div d \<le> maxAllowedDebtField c p"
      by (rule div_le_dividend)
    with maxAllowedDebtField_bound [OF assms(1,2)] assms(3) False show ?thesis
      by (simp add: calculateHealthFactor_value)
  qed
  with False have "Field_sub 100 h = 100 + (Field_ORDER - h)"
    by (simp add: Field_sub_def Field_ORDER_def)
  with \<open>h \<le> 34028236692093846346337460743176821145600\<close> have "MAXINT < Field_sub 100 h"
    by (simp add: Field_ORDER_def MAXINT_def)
  with False show ?thesis
    by (simp add: MIN_HEALTH_FACTOR_def)
qed

lemma liquidate_run:
  "liquidate ch v =
     (if (if debtAmount v = 0 then MAXINT
          else maxAllowedDebtField (collateralAmount v) (oracle_getPrice ch) div debtAmount v)
         \<le> 100
      then Inr (v\<lparr>collateralAmount := 0, debtAmount := 0\<rparr>,
                [SendMina (this_address ch) (this_sender ch) (collateralAmount v),
                 TokenBurn (this_sender ch) (debtAmount v),
                 EmitEvent (LiquidateEvent (this_address ch) (this_sender ch)
                   (collateralAmount v) (debtAmount v) (oracle_getPrice ch))])
      else Inl HEALTH_FACTOR_TOO_HIGH)"
  by (simp add: liquidate_def andThen_def require_def calculateHealthFactor_value
      MIN_HEALTH_FACTOR_def)

text \<open>
  C3. \<open>liquidate\<close> takes no secret and does not depend on the ownership commitment. The
  health factor \<open>h\<close> of the current collateral, debt and oracle price always exists, and
  \<open>liquidate\<close> succeeds exactly when \<open>h \<le> 100\<close>. On success \<open>collateralAmount\<close> and
  \<open>debtAmount\<close> are both zero and the only transfer sends the prior \<open>collateralAmount\<close>
  to the caller; when \<open>h > 100\<close> it rejects with \<open>HEALTH_FACTOR_TOO_HIGH\<close> and the vault
  is unchanged.
\<close>

theorem liquidate_guard:
  "\<exists>h. calculateHealthFactor (collateralAmount v) (debtAmount v) (oracle_getPrice ch) = Inr h
     \<and> (succeeds (liquidate ch v) \<longleftrightarrow> h \<le> 100)
     \<and> (h \<le> 100 \<longrightarrow>
          liquidate ch v =
            Inr (v\<lparr>collateralAmount := 0, debtAmount := 0\<rparr>,
                 [SendMina (this_address ch) (this_sender ch) (collateralAmount v),
                  TokenBurn (this_sender ch) (debtAmount v),
                  EmitEvent (LiquidateEvent (this_address ch) (this_sender ch)
                    (collateralAmount v) (debtAmount v) (oracle_getPrice ch))])
        \<and> collateralAmount (commit v (liquidate ch v)) = 0
        \<and> debtAmount (commit v (liquidate ch v)) = 0)
     \<and> (100 < h \<longrightarrow>
          liquidate ch v = Inl HEALTH_FACTOR_TOO_HIGH \<and> commit v (liquidate ch v) = v)
     \<and> liquidate (ch\<lparr>Poseidon_hash := H\<rparr>) (v\<lparr>ownershipHash := x\<rparr>) =
         map_sum id (apfst (\<lambda>w. w\<lparr>ownershipHash := x\<rparr>)) (liquidate ch v)"
proof -
  define h where "h =
    (if debtAmount v = 0 then MAXINT
     else maxAllowedDebtField (collateralAmount v) (oracle_getPrice ch) div debtAmount v)"
  have hf: "calculateHealthFactor (collateralAmount v) (debtAmount v) (oracle_getPrice ch)
      = Inr h"
    unfolding h_def by (rule calculateHealthFactor_value)
  have run: "liquidate ch v =
     (if h \<le> 100
      then Inr (v\<lparr>collateralAmount := 0, debtAmount := 0\<rparr>,
                [SendMina (this_address ch) (this_sender ch) (collateralAmount v),
                 TokenBurn (this_sender ch) (debtAmount v),
                 EmitEvent (LiquidateEvent (this_address ch) (this_sender ch)
                   (collateralAmount v) (debtAmount v) (oracle_getPrice ch))])
      else Inl HEALTH_FACTOR_TOO_HIGH)"
    unfolding h_def by (rule liquidate_run)
  have frame: "liquidate (ch\<lparr>Poseidon_hash := H\<rparr>) (v\<lparr>ownershipHash := x\<rparr>) =
         map_sum id (apfst (\<lambda>w. w\<lparr>ownershipHash := x\<rparr>)) (liquidate ch v)"
    by (simp add: liquidate_run)
  show ?thesis
  proof (intro exI [of _ h] conjI impI)
    show "calculateHealthFactor (collateralAmount v) (debtAmount v) (oracle_getPrice ch)
        = Inr h"
      by (rule hf)
    show "succeeds (liquidate ch v) \<longleftrightarrow> h \<le> 100"
      by (simp add: run succeeds_def)
    show "liquidate (ch\<lparr>Poseidon_hash := H\<rparr>) (v\<lparr>ownershipHash := x\<rparr>) =
         map_sum id (apfst (\<lambda>w. w\<lparr>ownershipHash := x\<rparr>)) (liquidate ch v)"
      by (rule frame)
  next
    assume "h \<le> 100"
    then show r: "liquidate ch v =
            Inr (v\<lparr>collateralAmount := 0, debtAmount := 0\<rparr>,
                 [SendMina (this_address ch) (this_sender ch) (collateralAmount v),
                  TokenBurn (this_sender ch) (debtAmount v),
                  EmitEvent (LiquidateEvent (this_address ch) (this_sender ch)
                    (collateralAmount v) (debtAmount v) (oracle_getPrice ch))])"
      by (simp add: run)
    show "collateralAmount (commit v (liquidate ch v)) = 0"
      by (simp add: r commit_def)
    show "debtAmount (commit v (liquidate ch v)) = 0"
      by (simp add: r commit_def)
  next
    assume "100 < h"
    then show r: "liquidate ch v = Inl HEALTH_FACTOR_TOO_HIGH"
      by (simp add: run)
    show "commit v (liquidate ch v) = v"
      by (simp add: r commit_def)
  qed
qed

theorem liquidate_guard_witness:
  "liquidate (exampleChain 1000000000 1000000000 0) (exampleVault 1000000000 1000000000) =
      Inr (exampleVault 0 0,
           [SendMina (Account 2) (Account 1) 1000000000,
            TokenBurn (Account 1) 1000000000,
            EmitEvent (LiquidateEvent (Account 2) (Account 1) 1000000000 1000000000
              1000000000)])
   \<and> liquidate (exampleChain 1000000000 2000000000 0) (exampleVault 2000000000 1000000000) =
      Inl HEALTH_FACTOR_TOO_HIGH
   \<and> commit (exampleVault 2000000000 1000000000)
       (liquidate (exampleChain 1000000000 2000000000 0)
          (exampleVault 2000000000 1000000000)) = exampleVault 2000000000 1000000000"
proof -
  let ?ch = "exampleChain 1000000000 1000000000 0"
  let ?v = "exampleVault 1000000000 1000000000"
  let ?ch' = "exampleChain 1000000000 2000000000 0"
  let ?v' = "exampleVault 2000000000 1000000000"
  have hf: "calculateHealthFactor (collateralAmount ?v) (debtAmount ?v) (oracle_getPrice ?ch)
      = Inr 66"
    by (simp add: example_sel hf_eval)
  have hf': "calculateHealthFactor (collateralAmount ?v') (debtAmount ?v')
      (oracle_getPrice ?ch') = Inr 133"
    by (simp add: example_sel hf_eval)
  from liquidate_guard [of ?v ?ch] hf
  have 1: "liquidate ?ch ?v =
      Inr (?v\<lparr>collateralAmount := 0, debtAmount := 0\<rparr>,
           [SendMina (this_address ?ch) (this_sender ?ch) (collateralAmount ?v),
            TokenBurn (this_sender ?ch) (debtAmount ?v),
            EmitEvent (LiquidateEvent (this_address ?ch) (this_sender ?ch)
              (collateralAmount ?v) (debtAmount ?v) (oracle_getPrice ?ch))])"
    by auto
  from liquidate_guard [of ?v' ?ch'] hf'
  have 2: "liquidate ?ch' ?v' = Inl HEALTH_FACTOR_TOO_HIGH"
    and 3: "commit ?v' (liquidate ?ch' ?v') = ?v'"
    by (auto simp: commit_def)
  from 1 2 3 show ?thesis
    by (simp add: example_sel example_upd)
qed

subsection \<open>redeemCollateral\<close>





subsection \<open>Liquidation and minting at a health factor of 100\<close>

text \<open>
  C9. At a health factor of exactly 100 the guard of \<open>liquidate\<close> (at most 100) and the
  guard of \<open>mintZkUsd\<close> and \<open>redeemCollateral\<close> (at least 100) both pass. The vault
  with collateral \<open>1.5e9\<close> and debt \<open>1e9\<close> at price \<open>1e9\<close> has health factor 100: it
  can be liquidated, and a redemption, whose guard reads the health factor after the
  withdrawal, passes for the amount 0; minting one unit there is rejected, the health
  factor after the mint being 99. The vault with two more units of collateral has health
  factor 100 as well: it can be liquidated, and it can mint one unit and redeem one unit,
  the health factor after either being 100 again.
\<close>

theorem guards_overlap_at_100:
  "getHealthFactor (exampleChain 1000000000 1500000000 0)
      (exampleVault 1500000000 1000000000) = Inr 100
   \<and> succeeds (liquidate (exampleChain 1000000000 1500000000 0)
        (exampleVault 1500000000 1000000000))
   \<and> succeeds (redeemCollateral (exampleChain 1000000000 1500000000 0)
        (exampleVault 1500000000 1000000000) 0 42)
   \<and> mintZkUsd (exampleChain 1000000000 1500000000 0)
        (exampleVault 1500000000 1000000000) (Account 3) 1 42 = Inl HEALTH_FACTOR_TOO_LOW
   \<and> getHealthFactor (exampleChain 1000000000 1500000002 0)
        (exampleVault 1500000002 1000000000) = Inr MIN_HEALTH_FACTOR
   \<and> succeeds (liquidate (exampleChain 1000000000 1500000002 0)
        (exampleVault 1500000002 1000000000))
   \<and> succeeds (mintZkUsd (exampleChain 1000000000 1500000002 0)
        (exampleVault 1500000002 1000000000) (Account 3) 1 42)
   \<and> succeeds (redeemCollateral (exampleChain 1000000000 1500000002 0)
        (exampleVault 1500000002 1000000000) 1 42)"
proof (intro conjI)
  show "getHealthFactor (exampleChain 1000000000 1500000000 0)
      (exampleVault 1500000000 1000000000) = Inr 100"
    by (simp add: getHealthFactor_def example_sel hf_eval)
  show "succeeds (liquidate (exampleChain 1000000000 1500000000 0)
        (exampleVault 1500000000 1000000000))"
    by (simp add: liquidate_def op_defs example_sel hf_eval)
  show "succeeds (redeemCollateral (exampleChain 1000000000 1500000000 0)
        (exampleVault 1500000000 1000000000) 0 42)"
    by (simp add: redeemCollateral_alt op_defs example_sel example_hash_ok hf_eval
        MAXINT_def)
  show "mintZkUsd (exampleChain 1000000000 1500000000 0)
        (exampleVault 1500000000 1000000000) (Account 3) 1 42 = Inl HEALTH_FACTOR_TOO_LOW"
    by (simp add: mintZkUsd_alt op_defs example_sel example_hash_ok hf_eval MAXINT_def)
  show "getHealthFactor (exampleChain 1000000000 1500000002 0)
        (exampleVault 1500000002 1000000000) = Inr MIN_HEALTH_FACTOR"
    by (simp add: getHealthFactor_def example_sel hf_eval MIN_HEALTH_FACTOR_def)
  show "succeeds (liquidate (exampleChain 1000000000 1500000002 0)
        (exampleVault 1500000002 1000000000))"
    by (simp add: liquidate_def op_defs example_sel hf_eval)
  show "succeeds (mintZkUsd (exampleChain 1000000000 1500000002 0)
        (exampleVault 1500000002 1000000000) (Account 3) 1 42)"
    by (simp add: mintZkUsd_alt op_defs example_sel example_hash_ok hf_eval MAXINT_def)
  show "succeeds (redeemCollateral (exampleChain 1000000000 1500000002 0)
        (exampleVault 1500000002 1000000000) 1 42)"
    by (simp add: redeemCollateral_alt op_defs example_sel example_hash_ok hf_eval
        MAXINT_def)
qed

subsection \<open>The interaction flag\<close>

text \<open>
  C10. \<open>depositCollateral\<close>, \<open>redeemCollateral\<close>, \<open>burnZkUsd\<close> and \<open>liquidate\<close> neither
  write \<open>interactionFlag\<close> (it is the same after the call, successful or not) nor read it
  (run on a vault with another flag value they do the same, the flag aside). A successful
  \<open>mintZkUsd\<close> sets it to true, a rejected one leaves it. \<open>assertInteractionFlag\<close>
  requires it to be true and sets it to false. An accepted \<open>burnZkUsd\<close> calls the token
  contract's burn and changes \<open>debtAmount\<close> only.
\<close>

theorem interactionFlag_frame:
  "interactionFlag (commit v (depositCollateral ch v a s)) = interactionFlag v
   \<and> interactionFlag (commit v (redeemCollateral ch v a s)) = interactionFlag v
   \<and> interactionFlag (commit v (burnZkUsd ch v a s)) = interactionFlag v
   \<and> interactionFlag (commit v (liquidate ch v)) = interactionFlag v
   \<and> depositCollateral ch (v\<lparr>interactionFlag := b\<rparr>) a s =
       map_sum id (apfst (\<lambda>w. w\<lparr>interactionFlag := b\<rparr>)) (depositCollateral ch v a s)
   \<and> redeemCollateral ch (v\<lparr>interactionFlag := b\<rparr>) a s =
       map_sum id (apfst (\<lambda>w. w\<lparr>interactionFlag := b\<rparr>)) (redeemCollateral ch v a s)
   \<and> burnZkUsd ch (v\<lparr>interactionFlag := b\<rparr>) a s =
       map_sum id (apfst (\<lambda>w. w\<lparr>interactionFlag := b\<rparr>)) (burnZkUsd ch v a s)
   \<and> liquidate ch (v\<lparr>interactionFlag := b\<rparr>) =
       map_sum id (apfst (\<lambda>w. w\<lparr>interactionFlag := b\<rparr>)) (liquidate ch v)
   \<and> (succeeds (mintZkUsd ch v r a s) \<longrightarrow>
        interactionFlag (commit v (mintZkUsd ch v r a s)) = True)
   \<and> (\<not> succeeds (mintZkUsd ch v r a s) \<longrightarrow>
        interactionFlag (commit v (mintZkUsd ch v r a s)) = interactionFlag v)
   \<and> assertInteractionFlag v =
       (if interactionFlag v then Inr (v\<lparr>interactionFlag := False\<rparr>, True)
        else Inl PreconditionFailed)
   \<and> (0 < a \<and> ownershipHash v = Poseidon_hash ch s \<and> a \<le> debtAmount v \<longrightarrow>
        burnZkUsd ch v a s =
          Inr (v\<lparr>debtAmount := debtAmount v - a\<rparr>,
               [TokenBurn (this_sender ch) a,
                EmitEvent (BurnZkUsdEvent (this_address ch) a
                  (collateralAmount v) (debtAmount v))]))"
proof (intro conjI)
  show "interactionFlag (commit v (depositCollateral ch v a s)) = interactionFlag v"
    by (simp add: depositCollateral_def op_defs)
  show "interactionFlag (commit v (redeemCollateral ch v a s)) = interactionFlag v"
    by (simp add: redeemCollateral_alt op_defs calculateHealthFactor_value)
  show "interactionFlag (commit v (burnZkUsd ch v a s)) = interactionFlag v"
    by (simp add: burnZkUsd_def op_defs)
  show "interactionFlag (commit v (liquidate ch v)) = interactionFlag v"
    by (simp add: liquidate_def op_defs calculateHealthFactor_value)
  show "depositCollateral ch (v\<lparr>interactionFlag := b\<rparr>) a s =
       map_sum id (apfst (\<lambda>w. w\<lparr>interactionFlag := b\<rparr>)) (depositCollateral ch v a s)"
    by (simp add: depositCollateral_def op_defs)
  show "redeemCollateral ch (v\<lparr>interactionFlag := b\<rparr>) a s =
       map_sum id (apfst (\<lambda>w. w\<lparr>interactionFlag := b\<rparr>)) (redeemCollateral ch v a s)"
    by (simp add: redeemCollateral_alt op_defs calculateHealthFactor_value)
  show "burnZkUsd ch (v\<lparr>interactionFlag := b\<rparr>) a s =
       map_sum id (apfst (\<lambda>w. w\<lparr>interactionFlag := b\<rparr>)) (burnZkUsd ch v a s)"
    by (simp add: burnZkUsd_def op_defs)
  show "liquidate ch (v\<lparr>interactionFlag := b\<rparr>) =
       map_sum id (apfst (\<lambda>w. w\<lparr>interactionFlag := b\<rparr>)) (liquidate ch v)"
    by (simp add: liquidate_def op_defs calculateHealthFactor_value)
  show "succeeds (mintZkUsd ch v r a s) \<longrightarrow>
        interactionFlag (commit v (mintZkUsd ch v r a s)) = True"
    by (simp add: mintZkUsd_alt op_defs calculateHealthFactor_value)
  show "\<not> succeeds (mintZkUsd ch v r a s) \<longrightarrow>
        interactionFlag (commit v (mintZkUsd ch v r a s)) = interactionFlag v"
    by (simp add: succeeds_def commit_def split: sum.splits)
  show "assertInteractionFlag v =
       (if interactionFlag v then Inr (v\<lparr>interactionFlag := False\<rparr>, True)
        else Inl PreconditionFailed)"
    by (simp add: assertInteractionFlag_def op_defs)
  show "0 < a \<and> ownershipHash v = Poseidon_hash ch s \<and> a \<le> debtAmount v \<longrightarrow>
        burnZkUsd ch v a s =
          Inr (v\<lparr>debtAmount := debtAmount v - a\<rparr>,
               [TokenBurn (this_sender ch) a,
                EmitEvent (BurnZkUsdEvent (this_address ch) a
                  (collateralAmount v) (debtAmount v))])"
    by (simp add: burnZkUsd_def op_defs)
qed

theorem interactionFlag_frame_witness:
  "succeeds (mintZkUsd (exampleChain 1000000000 100000000000 0) (exampleVault 100000000000 0)
      (Account 3) 5000000000 42)
   \<and> interactionFlag (commit (exampleVault 100000000000 0)
        (mintZkUsd (exampleChain 1000000000 100000000000 0) (exampleVault 100000000000 0)
           (Account 3) 5000000000 42)) = True
   \<and> \<not> succeeds (mintZkUsd (exampleChain 1000000000 100000000000 0)
        (exampleVault 100000000000 0) (Account 3) 0 42)
   \<and> interactionFlag (commit (exampleVault 100000000000 0)
        (mintZkUsd (exampleChain 1000000000 100000000000 0) (exampleVault 100000000000 0)
           (Account 3) 0 42)) = False
   \<and> burnZkUsd (exampleChain 1000000000 100000000000 0)
        ((exampleVault 100000000000 5000000000)\<lparr>interactionFlag := False\<rparr>) 2000000000 42 =
        Inr (exampleVault 100000000000 3000000000,
             [TokenBurn (Account 1) 2000000000,
              EmitEvent (BurnZkUsdEvent (Account 2) 2000000000 100000000000 5000000000)])
   \<and> assertInteractionFlag (exampleVault 100000000000 5000000000) = Inl PreconditionFailed
   \<and> assertInteractionFlag ((exampleVault 100000000000 5000000000)\<lparr>interactionFlag := True\<rparr>)
        = Inr (exampleVault 100000000000 5000000000, True)"
proof -
  let ?ch = "exampleChain 1000000000 100000000000 0"
  let ?v = "exampleVault 100000000000 0"
  let ?w = "exampleVault 100000000000 5000000000"
  have s: "succeeds (mintZkUsd ?ch ?v (Account 3) 5000000000 42)"
    by (simp add: mintZkUsd_alt op_defs example_sel example_hash_ok hf_eval MAXINT_def)
  have n: "\<not> succeeds (mintZkUsd ?ch ?v (Account 3) 0 42)"
    by (simp add: mintZkUsd_alt op_defs)
  from s interactionFlag_frame [of ?v ?ch 5000000000 42 False "Account 3"]
  have 1: "interactionFlag (commit ?v (mintZkUsd ?ch ?v (Account 3) 5000000000 42)) = True"
    by blast
  from n interactionFlag_frame [of ?v ?ch 0 42 False "Account 3"]
  have 2: "interactionFlag (commit ?v (mintZkUsd ?ch ?v (Account 3) 0 42)) = False"
    by (simp add: example_sel)
  have w: "?w\<lparr>interactionFlag := False\<rparr> = ?w"
    by (simp add: exampleVault_def)
  from interactionFlag_frame [of ?w ?ch 2000000000 42 False "Account 3"]
    example_hash_ok [of 100000000000 5000000000 1000000000 100000000000 0]
  have 3: "burnZkUsd ?ch ?w 2000000000 42 =
        Inr (exampleVault 100000000000 3000000000,
             [TokenBurn (Account 1) 2000000000,
              EmitEvent (BurnZkUsdEvent (Account 2) 2000000000 100000000000 5000000000)])"
    by (simp add: example_sel example_upd)
  from interactionFlag_frame [of ?w ?ch 2000000000 42 False "Account 3"]
  have 4: "assertInteractionFlag ?w = Inl PreconditionFailed"
    by (simp add: example_sel)
  from interactionFlag_frame [of "?w\<lparr>interactionFlag := True\<rparr>" ?ch 2000000000 42 False
      "Account 3"]
  have 5: "assertInteractionFlag (?w\<lparr>interactionFlag := True\<rparr>) = Inr (?w, True)"
    by (simp add: exampleVault_def)
  from s n 1 2 3 4 5 show ?thesis
    by (simp only: w) blast
qed

end
